theory Spec2Isabelle
  imports Complex_Main "HOL-Library.Monad_Syntax"
begin

section \<open>Entity model (src/types/index.ts)\<close>

text \<open>
  The task manager keeps a durable set of tasks. The tools of the repository
  (\<^verbatim>\<open>verifyTask\<close>, \<^verbatim>\<open>executeTask\<close>, \<^verbatim>\<open>updateTaskContent\<close>, \<^verbatim>\<open>splitTasksRaw\<close>) read
  and change that set through the functions of \<^verbatim>\<open>models/taskModel\<close>.

  Strings are \<^typ>\<open>string\<close>; one element stands for one code unit of the JavaScript
  string, so \<^const>\<open>length\<close> is the \<^verbatim>\<open>.length\<close> that zod's \<^verbatim>\<open>min\<close> and \<^verbatim>\<open>max\<close> compare.
  A \<^verbatim>\<open>Date\<close> is a natural number (milliseconds). An optional field is an \<^typ>\<open>'a option\<close>.
  The field \<^verbatim>\<open>id\<close> of a task is written \<open>id'\<close>, the \<^verbatim>\<open>type\<close> and \<^verbatim>\<open>description\<close> of a related
  file \<open>fileType\<close> and \<open>fileDescription\<close>; the parameter \<^verbatim>\<open>taskId\<close> of the tools is
  written \<open>tid\<close>, the field \<^verbatim>\<open>notes\<close> is \<open>notes'\<close>, and the parameter \<^verbatim>\<open>summary\<close> is written \<open>summ\<close>.
\<close>

datatype TaskStatus = PENDING | IN_PROGRESS | COMPLETED | BLOCKED

record TaskDependency =
  taskId :: string

datatype RelatedFileType = TO_MODIFY | REFERENCE | CREATE | DEPENDENCY | OTHER

record RelatedFile =
  path :: string
  fileType :: RelatedFileType
  fileDescription :: "string option"
  lineStart :: "int option"
  lineEnd :: "int option"

record Task =
  id' :: string
  name :: string
  description :: string
  notes' :: "string option"
  status :: TaskStatus
  dependencies :: "TaskDependency list"
  createdAt :: nat
  updatedAt :: nat
  completedAt :: "nat option"
  summary :: "string option"
  relatedFiles :: "RelatedFile list option"
  analysisResult :: "string option"
  implementationGuide :: "string option"
  verificationCriteria :: "string option"

text \<open>
  What persists: the durable task set and the backup snapshots written so far
  (location and content).
\<close>

record world =
  tasks :: "Task list"
  backups :: "(string \<times> Task list) list"

text \<open>
  A tool answers with a content and, on some paths, the flag \<^verbatim>\<open>isError: true\<close>; a
  response without the flag has \<open>isError = False\<close>. The texts of the answers are
  rendered by prompt generators that are not part of the sources, so a content is
  kept as the data the text is made from.
\<close>

record 'c response =
  content :: 'c
  isError :: bool

section \<open>The task model (models/taskModel, not among the sources)\<close>

text \<open>
  Modelled from the spec: \<^verbatim>\<open>getTaskById\<close> of models/taskModel. The Store Facade's
  \<^verbatim>\<open>getById\<close> reads the current durable snapshot; here it is the first task of the
  set that carries the id.
\<close>

definition getTaskById :: "Task list \<Rightarrow> string \<Rightarrow> Task option" where
  "getTaskById ts tid = find (\<lambda>t. id' t = tid) ts"

text \<open>
  Modelled from the spec: the write path of models/taskModel (section 3: a task is
  mutated by the status state machine or by a content update). A mutation changes
  the one task that \<^const>\<open>getTaskById\<close> finds and leaves every other task as it is.
\<close>

fun updateTask :: "(Task \<Rightarrow> Task) \<Rightarrow> string \<Rightarrow> Task list \<Rightarrow> Task list" where
  "updateTask f tid [] = []"
| "updateTask f tid (t # ts) =
     (if id' t = tid then f t # ts else t # updateTask f tid ts)"

text \<open>
  Modelled from the spec: \<^verbatim>\<open>updateTaskStatus\<close> of models/taskModel (section 4.5:
  a transition stores the status and refreshes \<^verbatim>\<open>updatedAt\<close>; the transition to
  \<^verbatim>\<open>completed\<close> sets \<^verbatim>\<open>completedAt\<close>).
\<close>

definition updateTaskStatus :: "nat \<Rightarrow> string \<Rightarrow> TaskStatus \<Rightarrow> world \<Rightarrow> world" where
  "updateTaskStatus now tid st w =
     w\<lparr>tasks := updateTask
          (\<lambda>t. t\<lparr>status := st, updatedAt := now,
                 completedAt := (if st = COMPLETED then Some now else completedAt t)\<rparr>)
          tid (tasks w)\<rparr>"

text \<open>
  Modelled from the spec: \<^verbatim>\<open>updateTaskSummary\<close> of models/taskModel (section 4.5:
  the summary is stored, \<^verbatim>\<open>updatedAt\<close> refreshed).
\<close>

definition updateTaskSummary :: "nat \<Rightarrow> string \<Rightarrow> string \<Rightarrow> world \<Rightarrow> world" where
  "updateTaskSummary now tid summ w =
     w\<lparr>tasks := updateTask (\<lambda>t. t\<lparr>summary := Some summ, updatedAt := now\<rparr>) tid (tasks w)\<rparr>"

text \<open>
  The answer of the Execution Gate. The optional \<^verbatim>\<open>blockedBy\<close> is a list:
  \<^verbatim>\<open>executeTask\<close> treats an absent and an empty one alike.
\<close>

record ExecutionCheck =
  canExecute :: bool
  blockedBy :: "string list"

text \<open>
  Modelled from the spec: the status lookup of the Execution Gate (sections 4.4 and
  8): a dependency id counts as completed when it resolves to a task whose status
  is \<^verbatim>\<open>completed\<close>.
\<close>

definition isCompleted :: "Task list \<Rightarrow> string \<Rightarrow> bool" where
  "isCompleted ts d =
     (case getTaskById ts d of None \<Rightarrow> False | Some dt \<Rightarrow> status dt = COMPLETED)"

text \<open>
  Modelled from the spec: the algorithm of the Execution Gate (section 4.4) on a
  task: for each dependency id, in dependency-list order, look up its current
  status; the task is executable iff every dependency is completed, and
  \<^verbatim>\<open>blockedBy\<close> lists all the others (section 8: a task without dependencies is always
  executable).
\<close>

definition dependencyCheck :: "Task list \<Rightarrow> Task \<Rightarrow> ExecutionCheck" where
  "dependencyCheck ts t =
     (let blocked = filter (\<lambda>d. \<not> isCompleted ts d) (map taskId (dependencies t))
      in \<lparr>canExecute = (blocked = []), blockedBy = blocked\<rparr>)"

text \<open>
  Modelled from the spec: \<^verbatim>\<open>canExecuteTask\<close> of models/taskModel, the Execution Gate
  of section 4.4. It resolves the task and runs the algorithm on it. For a task
  that is itself already in progress or completed the dependency status is not
  recomputed and no blocker is named: that condition is reported distinctly, by
  the transition rules of section 4.5, so the Execution Gate does not stand in the
  way of that report. The spec does not say what is answered for an id that is
  not in the set; \<^verbatim>\<open>executeTask\<close> never asks (it returns before), and the model answers
  not executable.
\<close>

definition canExecuteTask :: "Task list \<Rightarrow> string \<Rightarrow> ExecutionCheck" where
  "canExecuteTask ts tid =
     (case getTaskById ts tid of
        None \<Rightarrow> \<lparr>canExecute = False, blockedBy = []\<rparr>
      | Some t \<Rightarrow>
          if status t = IN_PROGRESS \<or> status t = COMPLETED
          then \<lparr>canExecute = True, blockedBy = []\<rparr>
          else dependencyCheck ts t)"

text \<open>
  The request of a content update and the result of the task model's update. The
  fields are written with the prefix \<open>upd_\<close>.
\<close>

record updateTaskContentArgs =
  upd_name :: "string option"
  upd_description :: "string option"
  upd_notes :: "string option"
  upd_relatedFiles :: "RelatedFile list option"
  upd_dependencies :: "string list option"
  upd_implementationGuide :: "string option"
  upd_verificationCriteria :: "string option"

record updateResult =
  upd_success :: bool
  upd_task :: "Task option"

text \<open>
  Modelled from the spec: the targeted content update of section 3, on one task:
  whole field replacement, a field is changed only if it is supplied, and
  \<^verbatim>\<open>updatedAt\<close> advances.
\<close>

definition applyUpdates :: "nat \<Rightarrow> updateTaskContentArgs \<Rightarrow> Task \<Rightarrow> Task" where
  "applyUpdates now a t =
     t\<lparr>name := (case upd_name a of None \<Rightarrow> name t | Some n \<Rightarrow> n),
       description := (case upd_description a of None \<Rightarrow> description t | Some d \<Rightarrow> d),
       notes' := (case upd_notes a of None \<Rightarrow> notes' t | Some n \<Rightarrow> Some n),
       relatedFiles := (case upd_relatedFiles a of None \<Rightarrow> relatedFiles t | Some fs \<Rightarrow> Some fs),
       dependencies :=
         (case upd_dependencies a of None \<Rightarrow> dependencies t
          | Some ds \<Rightarrow> map (\<lambda>d. \<lparr>taskId = d\<rparr>) ds),
       implementationGuide :=
         (case upd_implementationGuide a of None \<Rightarrow> implementationGuide t | Some g \<Rightarrow> Some g),
       verificationCriteria :=
         (case upd_verificationCriteria a of None \<Rightarrow> verificationCriteria t | Some c \<Rightarrow> Some c),
       updatedAt := now\<rparr>"

text \<open>
  Modelled from the spec: \<^verbatim>\<open>updateTaskContent\<close> of models/taskModel (imported by the
  tool as \<^verbatim>\<open>modelUpdateTaskContent\<close>; \<^verbatim>\<open>updateContent\<close> in section 6): the task with the
  id is updated, an unknown id is reported and nothing changes.
\<close>

definition modelUpdateTaskContent ::
  "nat \<Rightarrow> string \<Rightarrow> updateTaskContentArgs \<Rightarrow> world \<Rightarrow> updateResult \<times> world" where
  "modelUpdateTaskContent now tid a w =
     (case getTaskById (tasks w) tid of
        None \<Rightarrow> (\<lparr>upd_success = False, upd_task = None\<rparr>, w)
      | Some t \<Rightarrow>
          (\<lparr>upd_success = True, upd_task = Some (applyUpdates now a t)\<rparr>,
           w\<lparr>tasks := updateTask (applyUpdates now a) tid (tasks w)\<rparr>))"

text \<open>
  What a call of the batch tool takes from outside the task set: the date of the
  call, the fresh identifiers (the \<open>k\<close>-th task of the batch that needs one gets
  \<open>uuidv4 e k\<close>), and what the persistence collaborator's \<^verbatim>\<open>writeBackup\<close> answers at
  this call: the location of the backup, or \<open>None\<close> for an \<^verbatim>\<open>IOError\<close>.
\<close>

record env =
  date :: nat
  uuidv4 :: "nat \<Rightarrow> string"
  writeBackup :: "string option"

datatype error = DependencyNotFound string

text \<open>
  The messages of the batch tool are texts; a message is kept as the list of its
  parts, in the order in which the source appends them.
\<close>

datatype message_part =
    ClearMessage bool
  | CreatedNewTasks nat
  | ErrorCreatingNewTasks error
  | AppendedTasks nat
  | OverwroteTasks nat
  | SelectivelyUpdatedTasks nat
  | TaskCreationFailed error

text \<open>
  The result of the task model's clear step; its fields are written with the prefix
  \<open>clr_\<close>.
\<close>

record clearResult =
  clr_success :: bool
  clr_message :: "message_part list"
  clr_backupFile :: "string option"

text \<open>
  Modelled from the spec: \<^verbatim>\<open>clearAllTasks\<close> of models/taskModel (imported by the tool
  as \<^verbatim>\<open>modelClearAllTasks\<close>), the first half of the mode \<^verbatim>\<open>clearAllTasks\<close> of section
  4.6: the entire durable set is written to a backup location, then the set is
  emptied; tasks are destroyed only after the backup is written, so a failed backup
  leaves the set as it is.
\<close>

definition modelClearAllTasks :: "env \<Rightarrow> world \<Rightarrow> clearResult \<times> world" where
  "modelClearAllTasks e w =
     (case writeBackup e of
        None \<Rightarrow> (\<lparr>clr_success = False, clr_message = [ClearMessage False], clr_backupFile = None\<rparr>, w)
      | Some location \<Rightarrow>
          (\<lparr>clr_success = True, clr_message = [ClearMessage True], clr_backupFile = Some location\<rparr>,
           w\<lparr>tasks := [], backups := backups w @ [(location, tasks w)]\<rparr>))"

text \<open>
  A candidate task of a batch, as the tool hands it to the task model (the
  \<^verbatim>\<open>convertedTasks\<close> of \<^verbatim>\<open>splitTasksRaw\<close>); its fields are written with the prefix \<open>in_\<close>.
\<close>

record TaskInput =
  in_name :: string
  in_description :: string
  in_notes :: "string option"
  in_dependencies :: "string list option"
  in_implementationGuide :: string
  in_verificationCriteria :: "string option"
  in_relatedFiles :: "RelatedFile list option"

datatype UpdateMode = Append | Overwrite | Selective | ClearAllTasks

text \<open>
  The Batch Reconciler of section 4.6 with the Dependency Resolver of section 4.3
  (\<^verbatim>\<open>batchCreateOrUpdateTasks\<close> of models/taskModel) is modelled from the spec in the
  steps that follow.
\<close>

text \<open>
  Modelled from the spec: which existing tasks survive (section 4.6): all of them
  under \<^verbatim>\<open>append\<close> and \<^verbatim>\<open>selective\<close>, the completed ones under \<^verbatim>\<open>overwrite\<close>. (The tool
  never passes \<^verbatim>\<open>clearAllTasks\<close>: it clears and then passes \<^verbatim>\<open>append\<close>; here that mode
  keeps the set like \<^verbatim>\<open>append\<close>.)
\<close>

definition survivors :: "UpdateMode \<Rightarrow> Task list \<Rightarrow> Task list" where
  "survivors mode ts =
     (case mode of Overwrite \<Rightarrow> filter (\<lambda>t. status t = COMPLETED) ts | _ \<Rightarrow> ts)"

text \<open>
  Modelled from the spec: under \<^verbatim>\<open>selective\<close> an incoming task is matched by name to
  an existing task (section 4.6); no other mode matches.
\<close>

definition matchExisting :: "UpdateMode \<Rightarrow> Task list \<Rightarrow> string \<Rightarrow> Task option" where
  "matchExisting mode ts n =
     (case mode of Selective \<Rightarrow> find (\<lambda>t. name t = n) ts | _ \<Rightarrow> None)"

text \<open>
  Modelled from the spec: the id of every incoming task (section 4.6): the id of
  the existing task it is matched to, or else a freshly assigned one.
\<close>

fun assignIds ::
  "env \<Rightarrow> UpdateMode \<Rightarrow> Task list \<Rightarrow> nat \<Rightarrow> TaskInput list \<Rightarrow> (TaskInput \<times> string) list" where
  "assignIds e mode ts k [] = []"
| "assignIds e mode ts k (i # inputs) =
     (i, case matchExisting mode ts (in_name i) of Some t \<Rightarrow> id' t | None \<Rightarrow> uuidv4 e k)
       # assignIds e mode ts (Suc k) inputs"

text \<open>
  Modelled from the spec: the Dependency Resolver (section 4.3) on one token: an
  exact id first (of the surviving tasks or of the incoming batch), then an exact
  name, a task of the incoming batch before a task of the durable set; otherwise
  \<^verbatim>\<open>DependencyNotFound\<close> with the token.
\<close>

definition resolveDependency ::
  "Task list \<Rightarrow> (TaskInput \<times> string) list \<Rightarrow> string \<Rightarrow> error + string" where
  "resolveDependency ts batch token =
     (if token \<in> set (map snd batch) \<or> token \<in> set (map id' ts) then Inr token
      else case find (\<lambda>p. in_name (fst p) = token) batch of
             Some p \<Rightarrow> Inr (snd p)
           | None \<Rightarrow>
               (case find (\<lambda>t. name t = token) ts of
                  Some t \<Rightarrow> Inr (id' t)
                | None \<Rightarrow> Inl (DependencyNotFound token)))"

text \<open>
  Modelled from the spec: the Dependency Resolver (section 4.3) on the tokens of a
  task, in order; the first token that does not resolve is the error.
\<close>

fun resolveDependencies ::
  "Task list \<Rightarrow> (TaskInput \<times> string) list \<Rightarrow> string list \<Rightarrow> error + TaskDependency list" where
  "resolveDependencies ts batch [] = Inr []"
| "resolveDependencies ts batch (token # tokens) =
     (case resolveDependency ts batch token of
        Inl err \<Rightarrow> Inl err
      | Inr d \<Rightarrow>
          (case resolveDependencies ts batch tokens of
             Inl err \<Rightarrow> Inl err
           | Inr ds \<Rightarrow> Inr (\<lparr>taskId = d\<rparr> # ds)))"

text \<open>
  Modelled from the spec: one task of the result (section 4.6), with the flag
  "newly created". A matched task is updated in place: the content fields are
  replaced, id, status and timestamps are preserved. Every other task is created
  with its fresh id, status \<^verbatim>\<open>pending\<close> and \<^verbatim>\<open>createdAt = updatedAt\<close>. The global analysis
  result is attached to a task that has none.
\<close>

definition buildTask ::
  "env \<Rightarrow> UpdateMode \<Rightarrow> Task list \<Rightarrow> string option \<Rightarrow> (TaskInput \<times> string) list \<Rightarrow>
   TaskInput \<times> string \<Rightarrow> error + bool \<times> Task" where
  "buildTask e mode ts globalAnalysisResult batch p =
     (let i = fst p in
      case resolveDependencies ts batch
             (case in_dependencies i of None \<Rightarrow> [] | Some tokens \<Rightarrow> tokens) of
        Inl err \<Rightarrow> Inl err
      | Inr deps \<Rightarrow>
          (case matchExisting mode ts (in_name i) of
             Some t \<Rightarrow>
               Inr (False,
                 t\<lparr>description := in_description i, notes' := in_notes i, dependencies := deps,
                   relatedFiles := in_relatedFiles i,
                   implementationGuide := Some (in_implementationGuide i),
                   verificationCriteria := in_verificationCriteria i,
                   analysisResult :=
                     (case analysisResult t of None \<Rightarrow> globalAnalysisResult | Some a \<Rightarrow> Some a)\<rparr>)
           | None \<Rightarrow>
               Inr (True,
                 \<lparr>id' = snd p, name = in_name i, description = in_description i,
                  notes' = in_notes i, status = PENDING, dependencies = deps,
                  createdAt = date e, updatedAt = date e, completedAt = None, summary = None,
                  relatedFiles = in_relatedFiles i, analysisResult = globalAnalysisResult,
                  implementationGuide = Some (in_implementationGuide i),
                  verificationCriteria = in_verificationCriteria i\<rparr>)))"

text \<open>
  Modelled from the spec: the tasks of the result, in the order of the batch; a
  dependency that does not resolve fails the whole batch (section 4.6).
\<close>

fun buildTasks ::
  "env \<Rightarrow> UpdateMode \<Rightarrow> Task list \<Rightarrow> string option \<Rightarrow> (TaskInput \<times> string) list \<Rightarrow>
   (TaskInput \<times> string) list \<Rightarrow> error + (bool \<times> Task) list" where
  "buildTasks e mode ts g batch [] = Inr []"
| "buildTasks e mode ts g batch (p # ps) =
     (case buildTask e mode ts g batch p of
        Inl err \<Rightarrow> Inl err
      | Inr b \<Rightarrow>
          (case buildTasks e mode ts g batch ps of
             Inl err \<Rightarrow> Inl err
           | Inr bs \<Rightarrow> Inr (b # bs)))"

text \<open>
  Modelled from the spec: \<^verbatim>\<open>batchCreateOrUpdateTasks\<close> of models/taskModel (section
  4.6): the new set is the surviving tasks, the matched ones updated in place,
  followed by the created tasks; the result lists the created and updated tasks. A
  batch that fails leaves the set exactly as it was.
\<close>

definition batchCreateOrUpdateTasks ::
  "env \<Rightarrow> TaskInput list \<Rightarrow> UpdateMode \<Rightarrow> string option \<Rightarrow> world \<Rightarrow>
   error + Task list \<times> world" where
  "batchCreateOrUpdateTasks e inputs mode globalAnalysisResult w =
     (let kept = survivors mode (tasks w);
          batch = assignIds e mode kept 0 inputs
      in case buildTasks e mode kept globalAnalysisResult batch batch of
           Inl err \<Rightarrow> Inl err
         | Inr built \<Rightarrow>
             Inr (map snd built,
                  w\<lparr>tasks :=
                      map (\<lambda>t. case find (\<lambda>b. \<not> fst b \<and> id' (snd b) = id' t) built of
                                 Some b \<Rightarrow> snd b | None \<Rightarrow> t) kept
                      @ map snd (filter fst built)\<rparr>))"

section \<open>verifyTask\<close>

text \<open>
  \<^verbatim>\<open>verifyTaskSchema\<close>: the summary has at least 30 characters and the score lies in
  [0, 100]. (The schema also matches the task id against a UUID pattern whose
  definition is not among the sources; no property below depends on it.) A score is
  a number, not only an integer.
\<close>

definition verifyTaskSchema :: "string \<Rightarrow> rat \<Rightarrow> bool" where
  "verifyTaskSchema summ score \<longleftrightarrow> 30 \<le> length summ \<and> 0 \<le> score \<and> score \<le> 100"

datatype verify_content =
    VerifyNotFound string
  | VerifyStatusError Task
  | VerifyPrompt Task rat string

text \<open>
  \<^verbatim>\<open>verifyTask\<close>: an unknown id and a task that is not in progress are errors; a score
  of 80 or more stores the summary and then completes the task; the answer is the
  prompt made from the task as it was read, the score and the summary.
\<close>

definition verifyTask ::
  "nat \<Rightarrow> string \<Rightarrow> string \<Rightarrow> rat \<Rightarrow> world \<Rightarrow> verify_content response \<times> world" where
  "verifyTask now tid summ score w =
     (case getTaskById (tasks w) tid of
        None \<Rightarrow> (\<lparr>content = VerifyNotFound tid, isError = True\<rparr>, w)
      | Some task \<Rightarrow>
          if status task \<noteq> IN_PROGRESS
          then (\<lparr>content = VerifyStatusError task, isError = True\<rparr>, w)
          else
            (let w' = (if 80 \<le> score
                       then updateTaskStatus now tid COMPLETED (updateTaskSummary now tid summ w)
                       else w)
             in (\<lparr>content = VerifyPrompt task score summ, isError = False\<rparr>, w')))"

section \<open>executeTask\<close>

datatype blocked_reason = BlockedBy "string list" | UnableToDetermine

datatype execute_content =
    ExecNotFound string
  | ExecCannotExecute Task blocked_reason
  | ExecAlreadyInProgress Task
  | ExecAlreadyCompleted Task
  | ExecPrompt Task "Task list"

text \<open>
  \<^verbatim>\<open>executeTask\<close>, in the order of the source: the task must exist; then \<^verbatim>\<open>canExecuteTask\<close> is
  asked, and a task it does not let through is answered with the blocking ids
  (or "unable to determine" when it names none); then a task in progress
  and a completed task are each answered with their own message; otherwise the status
  becomes \<^verbatim>\<open>in_progress\<close> and the answer is the execution prompt, made from the task as
  it was read and from the dependency tasks that exist. No path sets \<^verbatim>\<open>isError\<close>.
  The complexity assessment and the related-files summary only feed the text of
  the prompt and are left out; the \<^verbatim>\<open>catch\<close> branch answers an exception of the task
  model, which the model of the task model above does not raise.
\<close>

definition executeTask :: "nat \<Rightarrow> string \<Rightarrow> world \<Rightarrow> execute_content response \<times> world" where
  "executeTask now tid w =
     (case getTaskById (tasks w) tid of
        None \<Rightarrow> (\<lparr>content = ExecNotFound tid, isError = False\<rparr>, w)
      | Some task \<Rightarrow>
          (let executionCheck = canExecuteTask (tasks w) tid in
           if \<not> canExecute executionCheck
           then (\<lparr>content = ExecCannotExecute task
                    (if blockedBy executionCheck \<noteq> []
                     then BlockedBy (blockedBy executionCheck) else UnableToDetermine),
                  isError = False\<rparr>, w)
           else if status task = IN_PROGRESS
           then (\<lparr>content = ExecAlreadyInProgress task, isError = False\<rparr>, w)
           else if status task = COMPLETED
           then (\<lparr>content = ExecAlreadyCompleted task, isError = False\<rparr>, w)
           else
             (let w' = updateTaskStatus now tid IN_PROGRESS w;
                  dependencyTasks =
                    List.map_filter (\<lambda>dep. getTaskById (tasks w') (taskId dep)) (dependencies task)
              in (\<lparr>content = ExecPrompt task dependencyTasks, isError = False\<rparr>, w'))))"

text \<open>
  \<^verbatim>\<open>executeTask\<close> once more, line for line, with the function that it imports as
  \<^verbatim>\<open>canExecuteTask\<close> as a parameter: what the tool does with an answer of that
  function, whatever the function is.
\<close>

definition executeTaskWith ::
  "(Task list \<Rightarrow> string \<Rightarrow> ExecutionCheck) \<Rightarrow> nat \<Rightarrow> string \<Rightarrow> world \<Rightarrow>
   execute_content response \<times> world" where
  "executeTaskWith gate now tid w =
     (case getTaskById (tasks w) tid of
        None \<Rightarrow> (\<lparr>content = ExecNotFound tid, isError = False\<rparr>, w)
      | Some task \<Rightarrow>
          (let executionCheck = gate (tasks w) tid in
           if \<not> canExecute executionCheck
           then (\<lparr>content = ExecCannotExecute task
                    (if blockedBy executionCheck \<noteq> []
                     then BlockedBy (blockedBy executionCheck) else UnableToDetermine),
                  isError = False\<rparr>, w)
           else if status task = IN_PROGRESS
           then (\<lparr>content = ExecAlreadyInProgress task, isError = False\<rparr>, w)
           else if status task = COMPLETED
           then (\<lparr>content = ExecAlreadyCompleted task, isError = False\<rparr>, w)
           else
             (let w' = updateTaskStatus now tid IN_PROGRESS w;
                  dependencyTasks =
                    List.map_filter (\<lambda>dep. getTaskById (tasks w') (taskId dep)) (dependencies task)
              in (\<lparr>content = ExecPrompt task dependencyTasks, isError = False\<rparr>, w'))))"

section \<open>updateTaskContent\<close>

text \<open>
  JavaScript truthiness, as the conditions of \<^verbatim>\<open>updateTaskContent\<close> use it: an absent
  value, the empty string and the number 0 are falsy; every array is truthy, the
  empty one too. A comparison with an absent number is false.
\<close>

definition truthyString :: "string option \<Rightarrow> bool" where
  "truthyString s \<longleftrightarrow> (case s of None \<Rightarrow> False | Some x \<Rightarrow> x \<noteq> [])"

definition truthyNumber :: "int option \<Rightarrow> bool" where
  "truthyNumber n \<longleftrightarrow> (case n of None \<Rightarrow> False | Some x \<Rightarrow> x \<noteq> 0)"

definition truthyArray :: "'a list option \<Rightarrow> bool" where
  "truthyArray xs \<longleftrightarrow> (case xs of None \<Rightarrow> False | Some x \<Rightarrow> True)"

definition numberGreater :: "int option \<Rightarrow> int option \<Rightarrow> bool" where
  "numberGreater a b \<longleftrightarrow>
     (case a of None \<Rightarrow> False | Some x \<Rightarrow> (case b of None \<Rightarrow> False | Some y \<Rightarrow> y < x))"

text \<open>The condition of the loop over the related files (lines 234 to 237).\<close>

definition invalidLineRange :: "RelatedFile \<Rightarrow> bool" where
  "invalidLineRange file \<longleftrightarrow>
     (truthyNumber (lineStart file) \<and> \<not> truthyNumber (lineEnd file)) \<or>
     (\<not> truthyNumber (lineStart file) \<and> truthyNumber (lineEnd file)) \<or>
     (truthyNumber (lineStart file) \<and> truthyNumber (lineEnd file) \<and>
        numberGreater (lineStart file) (lineEnd file))"

text \<open>
  \<^verbatim>\<open>updateTaskContentSchema\<close>, for the related files of a request: the path is not
  empty, and a line number that is supplied is a positive integer. (The other
  fields are optional strings and arrays of strings, which the types of the request
  already say; the UUID pattern of the task id is not among the sources.)
\<close>

definition positiveIfPresent :: "int option \<Rightarrow> bool" where
  "positiveIfPresent n \<longleftrightarrow> (case n of None \<Rightarrow> True | Some x \<Rightarrow> 0 < x)"

definition updateTaskContentSchema :: "updateTaskContentArgs \<Rightarrow> bool" where
  "updateTaskContentSchema a \<longleftrightarrow>
     (case upd_relatedFiles a of
        None \<Rightarrow> True
      | Some files \<Rightarrow>
          list_all (\<lambda>file. 1 \<le> length (path file) \<and> positiveIfPresent (lineStart file) \<and>
                          positiveIfPresent (lineEnd file)) files)"

datatype update_content =
    UpdateValidationError string
  | UpdateEmpty string
  | UpdateNotFound string
  | UpdateResult Task updateResult

text \<open>
  \<^verbatim>\<open>updateTaskContent\<close>, in the order of the source: the line ranges of the supplied
  related files; then the empty update; then the lookup of the task; then the update
  through the task model.
\<close>

definition updateTaskContent ::
  "nat \<Rightarrow> string \<Rightarrow> updateTaskContentArgs \<Rightarrow> world \<Rightarrow> update_content response \<times> world" where
  "updateTaskContent now tid a w =
     (if (case upd_relatedFiles a of None \<Rightarrow> False | Some files \<Rightarrow> list_ex invalidLineRange files)
      then (\<lparr>content = UpdateValidationError tid, isError = False\<rparr>, w)
      else if \<not> (truthyString (upd_name a) \<or> truthyString (upd_description a) \<or>
                 truthyString (upd_notes a) \<or> truthyArray (upd_dependencies a) \<or>
                 truthyString (upd_implementationGuide a) \<or>
                 truthyString (upd_verificationCriteria a) \<or> truthyArray (upd_relatedFiles a))
      then (\<lparr>content = UpdateEmpty tid, isError = False\<rparr>, w)
      else
        (case getTaskById (tasks w) tid of
           None \<Rightarrow> (\<lparr>content = UpdateNotFound tid, isError = True\<rparr>, w)
         | Some task \<Rightarrow>
             (let r = modelUpdateTaskContent now tid a w
              in (\<lparr>content = UpdateResult task (fst r), isError = \<not> upd_success (fst r)\<rparr>, snd r))))"

section \<open>splitTasksRaw\<close>

text \<open>
  The value that \<^verbatim>\<open>JSON.parse\<close> returns. A number is an integer (\<open>JNumber\<close>) or a
  number that \<^verbatim>\<open>Number.isInteger\<close> refuses (\<open>JNonInteger\<close>; the schema rejects it
  wherever it asks for a number). An object is the list of its properties, each
  key once.
\<close>

datatype json =
    JNull
  | JBool bool
  | JNumber int
  | JNonInteger
  | JString string
  | JArray "json list"
  | JObject "(string \<times> json) list"

text \<open>
  The parts of \<^verbatim>\<open>tasksSchema\<close>. Each takes the value of a property (\<open>None\<close> when the
  object has no such property) and gives the validated value, or \<open>None\<close> when zod
  reports an issue. An optional part accepts an absent property only: \<^verbatim>\<open>null\<close> is an
  issue.
\<close>

definition zString :: "json option \<Rightarrow> string option" where
  "zString v = (case v of Some (JString s) \<Rightarrow> Some s | _ \<Rightarrow> None)"

definition zStringMin :: "nat \<Rightarrow> json option \<Rightarrow> string option" where
  "zStringMin n v =
     (case zString v of None \<Rightarrow> None | Some s \<Rightarrow> if n \<le> length s then Some s else None)"

definition zStringMax :: "nat \<Rightarrow> json option \<Rightarrow> string option" where
  "zStringMax n v =
     (case zString v of None \<Rightarrow> None | Some s \<Rightarrow> if length s \<le> n then Some s else None)"

definition zPositiveInt :: "json option \<Rightarrow> int option" where
  "zPositiveInt v = (case v of Some (JNumber n) \<Rightarrow> if 0 < n then Some n else None | _ \<Rightarrow> None)"

definition zRelatedFileType :: "json option \<Rightarrow> RelatedFileType option" where
  "zRelatedFileType v =
     (case zString v of
        None \<Rightarrow> None
      | Some s \<Rightarrow>
          if s = ''TO_MODIFY'' then Some TO_MODIFY
          else if s = ''REFERENCE'' then Some REFERENCE
          else if s = ''CREATE'' then Some CREATE
          else if s = ''DEPENDENCY'' then Some DEPENDENCY
          else if s = ''OTHER'' then Some OTHER
          else None)"

definition zOptional :: "(json option \<Rightarrow> 'a option) \<Rightarrow> json option \<Rightarrow> 'a option option" where
  "zOptional p v = (case v of None \<Rightarrow> Some None | Some j \<Rightarrow> map_option Some (p v))"

definition zArray :: "(json option \<Rightarrow> 'a option) \<Rightarrow> json option \<Rightarrow> 'a list option" where
  "zArray p v = (case v of Some (JArray js) \<Rightarrow> those (map (\<lambda>j. p (Some j)) js) | _ \<Rightarrow> None)"

definition relatedFileSchema :: "json option \<Rightarrow> RelatedFile option" where
  "relatedFileSchema v =
     (case v of
        Some (JObject props) \<Rightarrow>
          do {
            p \<leftarrow> zStringMin 1 (map_of props ''path'');
            ty \<leftarrow> zRelatedFileType (map_of props ''type'');
            d \<leftarrow> zStringMin 1 (map_of props ''description'');
            ls \<leftarrow> zOptional zPositiveInt (map_of props ''lineStart'');
            le \<leftarrow> zOptional zPositiveInt (map_of props ''lineEnd'');
            Some \<lparr>path = p, fileType = ty, fileDescription = Some d, lineStart = ls, lineEnd = le\<rparr>
          }
      | _ \<Rightarrow> None)"

definition taskSchema :: "json option \<Rightarrow> TaskInput option" where
  "taskSchema v =
     (case v of
        Some (JObject props) \<Rightarrow>
          do {
            n \<leftarrow> zStringMax 100 (map_of props ''name'');
            d \<leftarrow> zStringMin 10 (map_of props ''description'');
            g \<leftarrow> zString (map_of props ''implementationGuide'');
            deps \<leftarrow> zOptional (zArray zString) (map_of props ''dependencies'');
            nt \<leftarrow> zOptional zString (map_of props ''notes'');
            fs \<leftarrow> zOptional (zArray relatedFileSchema) (map_of props ''relatedFiles'');
            vc \<leftarrow> zOptional zString (map_of props ''verificationCriteria'');
            Some \<lparr>in_name = n, in_description = d, in_notes = nt, in_dependencies = deps,
                  in_implementationGuide = g, in_verificationCriteria = vc,
                  in_relatedFiles = fs\<rparr>
          }
      | _ \<Rightarrow> None)"

text \<open>
  \<^verbatim>\<open>tasksSchema\<close>: an array of at least one task. The tool goes on with the parsed
  value itself; the validated tasks carry the same fields as the
  \<^verbatim>\<open>convertedTasks\<close> that the tool builds from it, so they stand for both.
\<close>

definition tasksSchema :: "json \<Rightarrow> TaskInput list option" where
  "tasksSchema j =
     (case zArray taskSchema (Some j) of
        None \<Rightarrow> None
      | Some inputs \<Rightarrow> if 1 \<le> length inputs then Some inputs else None)"

text \<open>
  The loop over the tasks with the set of the names seen so far (lines 148 to 161):
  true when it returns the duplicate-name answer.
\<close>

fun hasDuplicateName :: "string list \<Rightarrow> TaskInput list \<Rightarrow> bool" where
  "hasDuplicateName nameSet [] = False"
| "hasDuplicateName nameSet (task # rest) =
     (if in_name task \<in> set nameSet then True
      else hasDuplicateName (in_name task # nameSet) rest)"

text \<open>
  The names of the tasks of a parsed batch, in order: of every element of the array
  that is an object with a string as its \<^verbatim>\<open>name\<close>. (This is not a function of the
  source; it says what "a batch with two tasks of the same name" is.)
\<close>

definition nameOf :: "json \<Rightarrow> string option" where
  "nameOf j = (case j of JObject props \<Rightarrow> zString (map_of props ''name'') | _ \<Rightarrow> None)"

definition taskNames :: "json \<Rightarrow> string list" where
  "taskNames j = (case j of JArray js \<Rightarrow> List.map_filter nameOf js | _ \<Rightarrow> [])"

datatype split_content =
    SplitParseError
  | SplitSchemaError
  | SplitDuplicateNames
  | SplitPrompt UpdateMode "Task list" "Task list"

record taskCreationResult =
  success :: bool
  message :: "message_part list"
  backupFilePath :: "string option"

record split_response =
  split_content :: split_content
  ephemeral :: "taskCreationResult option"

text \<open>
  What the mode-dependent middle of \<^verbatim>\<open>splitTasksRaw\<close> leaves in its local variables
  \<^verbatim>\<open>actionSuccess\<close>, \<^verbatim>\<open>message\<close>, \<^verbatim>\<open>backupFile\<close> and \<^verbatim>\<open>createdTasks\<close>, and the world after
  it (lines 187 to 240). An exception of \<^verbatim>\<open>batchCreateOrUpdateTasks\<close> is caught; the
  task set is then as the calls before it left it.
\<close>

record splitState =
  actionSuccess :: bool
  message' :: "message_part list"
  backupFile :: "string option"
  createdTasks :: "Task list"

definition applyUpdateMode ::
  "env \<Rightarrow> UpdateMode \<Rightarrow> TaskInput list \<Rightarrow> string option \<Rightarrow> world \<Rightarrow> splitState \<times> world" where
  "applyUpdateMode e updateMode convertedTasks globalAnalysisResult w =
     (if updateMode = ClearAllTasks
      then
        (let clearResult = fst (modelClearAllTasks e w); w1 = snd (modelClearAllTasks e w)
         in if clr_success clearResult
            then
              (case batchCreateOrUpdateTasks e convertedTasks Append globalAnalysisResult w1 of
                 Inr r \<Rightarrow>
                   (\<lparr>actionSuccess = True,
                     message' = clr_message clearResult @ [CreatedNewTasks (length (fst r))],
                     backupFile = clr_backupFile clearResult, createdTasks = fst r\<rparr>, snd r)
               | Inl err \<Rightarrow>
                   (\<lparr>actionSuccess = False,
                     message' = clr_message clearResult @ [ErrorCreatingNewTasks err],
                     backupFile = clr_backupFile clearResult, createdTasks = []\<rparr>, w1))
            else
              (\<lparr>actionSuccess = False, message' = clr_message clearResult, backupFile = None,
                createdTasks = []\<rparr>, w1))
      else
        (case batchCreateOrUpdateTasks e convertedTasks updateMode globalAnalysisResult w of
           Inr r \<Rightarrow>
             (\<lparr>actionSuccess = True,
               message' =
                 (case updateMode of
                    Append \<Rightarrow> [AppendedTasks (length (fst r))]
                  | Overwrite \<Rightarrow> [OverwroteTasks (length (fst r))]
                  | Selective \<Rightarrow> [SelectivelyUpdatedTasks (length (fst r))]
                  | ClearAllTasks \<Rightarrow> []),
               backupFile = None, createdTasks = fst r\<rparr>, snd r)
         | Inl err \<Rightarrow>
             (\<lparr>actionSuccess = False, message' = [TaskCreationFailed err], backupFile = None,
               createdTasks = []\<rparr>, w)))"

text \<open>
  \<^verbatim>\<open>splitTasksRaw\<close>. \<open>tasksRaw\<close> is what \<^verbatim>\<open>JSON.parse\<close> makes of the raw text: \<open>None\<close>
  when it throws. The three early answers carry no \<^verbatim>\<open>ephemeral\<close> part; the last answer
  carries the prompt (made from the mode, the created tasks and all tasks of the
  set) and the task creation result. No path sets \<^verbatim>\<open>isError\<close>. The fallback for a
  failing \<^verbatim>\<open>getAllTasks\<close> and the outermost \<^verbatim>\<open>catch\<close> answer exceptions that the model
  of the task model does not raise.
\<close>

definition splitTasksRaw ::
  "env \<Rightarrow> UpdateMode \<Rightarrow> json option \<Rightarrow> string option \<Rightarrow> world \<Rightarrow> split_response \<times> world" where
  "splitTasksRaw e updateMode tasksRaw globalAnalysisResult w =
     (case tasksRaw of
        None \<Rightarrow> (\<lparr>split_content = SplitParseError, ephemeral = None\<rparr>, w)
      | Some parsed \<Rightarrow>
          (case tasksSchema parsed of
             None \<Rightarrow> (\<lparr>split_content = SplitSchemaError, ephemeral = None\<rparr>, w)
           | Some convertedTasks \<Rightarrow>
               if hasDuplicateName [] convertedTasks
               then (\<lparr>split_content = SplitDuplicateNames, ephemeral = None\<rparr>, w)
               else
                 (let st = fst (applyUpdateMode e updateMode convertedTasks globalAnalysisResult w);
                      w' = snd (applyUpdateMode e updateMode convertedTasks globalAnalysisResult w);
                      allTasks = tasks w'
                  in (\<lparr>split_content = SplitPrompt updateMode (createdTasks st) allTasks,
                       ephemeral = Some \<lparr>success = actionSuccess st, message = message' st,
                                         backupFilePath = backupFile st\<rparr>\<rparr>, w'))))"

section \<open>Example data\<close>

text \<open>
  A task set of two tasks: \<open>t0\<close> without dependencies and \<open>t1\<close>, which depends on
  \<open>t0\<close>; their statuses are the parameters.
\<close>

definition exTask :: "string \<Rightarrow> TaskStatus \<Rightarrow> string list \<Rightarrow> Task" where
  "exTask i st deps =
     \<lparr>id' = i, name = i, description = ''a task of the example'', notes' = None, status = st,
      dependencies = map (\<lambda>d. \<lparr>taskId = d\<rparr>) deps, createdAt = 1, updatedAt = 1,
      completedAt = (if st = COMPLETED then Some 1 else None), summary = None,
      relatedFiles = None, analysisResult = None, implementationGuide = None,
      verificationCriteria = None\<rparr>"

definition exWorld :: "TaskStatus \<Rightarrow> TaskStatus \<Rightarrow> world" where
  "exWorld st0 st1 = \<lparr>tasks = [exTask ''t0'' st0 [], exTask ''t1'' st1 [''t0'']], backups = []\<rparr>"

text \<open>
  An answering function for \<^verbatim>\<open>executeTask\<close> that does not stand aside for a task that is
  already started: it refuses a completed task and names no blocker (the answer
  for which \<^verbatim>\<open>executeTask\<close> has the text "Unable to determine blocking reason"), and it
  runs the dependency algorithm on every other task, a task in progress too.
\<close>

definition exGate :: "Task list \<Rightarrow> string \<Rightarrow> ExecutionCheck" where
  "exGate ts tid =
     (case getTaskById ts tid of
        None \<Rightarrow> \<lparr>canExecute = False, blockedBy = []\<rparr>
      | Some t \<Rightarrow>
          if status t = COMPLETED then \<lparr>canExecute = False, blockedBy = []\<rparr>
          else dependencyCheck ts t)"

text \<open>
  An environment, a candidate task as parsed JSON and as the validated input it stands
  for, a related file with a line range, and an update request that supplies at most
  related files.
\<close>

definition exEnv :: env where
  "exEnv = \<lparr>date = 7, uuidv4 = (\<lambda>k. replicate (Suc k) CHR ''u''), writeBackup = Some ''backup-7''\<rparr>"

definition exJsonTask :: "string \<Rightarrow> string \<Rightarrow> string list \<Rightarrow> json" where
  "exJsonTask n d deps =
     JObject [(''name'', JString n), (''description'', JString d),
              (''implementationGuide'', JString ''step by step''),
              (''dependencies'', JArray (map JString deps))]"

definition exInput :: "string \<Rightarrow> string \<Rightarrow> string list \<Rightarrow> TaskInput" where
  "exInput n d deps =
     \<lparr>in_name = n, in_description = d, in_notes = None, in_dependencies = Some deps,
      in_implementationGuide = ''step by step'', in_verificationCriteria = None,
      in_relatedFiles = None\<rparr>"

definition exFile :: "int option \<Rightarrow> int option \<Rightarrow> RelatedFile" where
  "exFile s e = \<lparr>path = ''src/a.ts'', fileType = TO_MODIFY, fileDescription = None,
                 lineStart = s, lineEnd = e\<rparr>"

definition exArgs :: "RelatedFile list option \<Rightarrow> updateTaskContentArgs" where
  "exArgs files = \<lparr>upd_name = None, upd_description = None, upd_notes = None,
                   upd_relatedFiles = files, upd_dependencies = None,
                   upd_implementationGuide = None, upd_verificationCriteria = None\<rparr>"

section \<open>Facts about the task model\<close>

lemma getTaskById_updateTask_same:
  assumes "\<And>t. id' (f t) = id' t"
  shows "getTaskById (updateTask f tid ts) tid = map_option f (getTaskById ts tid)"
  using assms by (induction ts) (simp_all add: getTaskById_def)

lemma getTaskById_updateTask_other:
  assumes "\<And>t. id' (f t) = id' t" and "x \<noteq> tid"
  shows "getTaskById (updateTask f tid ts) x = getTaskById ts x"
  using assms by (induction ts) (simp_all add: getTaskById_def)

lemma getTaskById_id:
  "getTaskById ts tid = Some t \<Longrightarrow> id' t = tid"
  by (induction ts) (auto simp: getTaskById_def split: if_splits)

lemma exWorld_t1: "getTaskById (tasks (exWorld st0 st1)) ''t1'' = Some (exTask ''t1'' st1 [''t0''])"
  by (simp add: exWorld_def getTaskById_def exTask_def)

lemma exTask_status: "status (exTask i st deps) = st"
  by (simp add: exTask_def)

lemma exWorld_dependencyCheck:
  "dependencyCheck (tasks (exWorld st0 st1)) (exTask ''t1'' st1 [''t0'']) =
     (if st0 = COMPLETED then \<lparr>canExecute = True, blockedBy = []\<rparr>
      else \<lparr>canExecute = False, blockedBy = [''t0'']\<rparr>)"
  by (simp add: exWorld_def dependencyCheck_def isCompleted_def getTaskById_def exTask_def)

lemma exWorld_canExecute:
  "canExecuteTask (tasks (exWorld st0 PENDING)) ''t1'' =
     (if st0 = COMPLETED then \<lparr>canExecute = True, blockedBy = []\<rparr>
      else \<lparr>canExecute = False, blockedBy = [''t0'']\<rparr>)"
  by (simp add: canExecuteTask_def exWorld_t1 exTask_status exWorld_dependencyCheck)

lemma exWorld_exGate:
  "exGate (tasks (exWorld st0 st1)) ''t1'' =
     (if st1 = COMPLETED then \<lparr>canExecute = False, blockedBy = []\<rparr>
      else if st0 = COMPLETED then \<lparr>canExecute = True, blockedBy = []\<rparr>
      else \<lparr>canExecute = False, blockedBy = [''t0'']\<rparr>)"
  by (simp add: exGate_def exWorld_t1 exTask_status exWorld_dependencyCheck)

lemma executeTask_eq: "executeTask now tid w = executeTaskWith canExecuteTask now tid w"
  by (simp add: executeTask_def executeTaskWith_def)

lemma canExecuteTask_found:
  assumes "getTaskById ts tid = Some task"
    and "status task \<noteq> IN_PROGRESS" and "status task \<noteq> COMPLETED"
  shows "canExecute (canExecuteTask ts tid) \<longleftrightarrow>
           (\<forall>dep \<in> set (dependencies task). isCompleted ts (taskId dep))"
    and "blockedBy (canExecuteTask ts tid) =
           filter (\<lambda>d. \<not> isCompleted ts d) (map taskId (dependencies task))"
  using assms by (auto simp: canExecuteTask_def dependencyCheck_def Let_def filter_empty_conv)

section \<open>verifyTask: the transition to completed\<close>

text \<open>
  C1. For a task that is in progress, \<^verbatim>\<open>verifyTask\<close> with a score of at least 80 and a
  summary of at least 30 characters leaves the task completed with the summary
  attached (and \<^verbatim>\<open>updatedAt\<close>, \<^verbatim>\<open>completedAt\<close> set to the date of the call); with a score
  below 80 nothing is changed, so the status stays as it was.
\<close>

theorem verifyTask_in_progress:
  assumes "getTaskById (tasks w) tid = Some task" and "status task = IN_PROGRESS"
    and "verifyTaskSchema summ score"
  shows "(80 \<le> score \<longrightarrow>
            getTaskById (tasks (snd (verifyTask now tid summ score w))) tid =
              Some (task\<lparr>summary := Some summ, status := COMPLETED, updatedAt := now,
                         completedAt := Some now\<rparr>)) \<and>
         (score < 80 \<longrightarrow> snd (verifyTask now tid summ score w) = w)"
  using assms
  by (simp add: verifyTask_def updateTaskStatus_def updateTaskSummary_def
      getTaskById_updateTask_same)

theorem verifyTask_in_progress_witness:
  "verifyTaskSchema ''the parser handles every input now'' 90 \<and>
   map_option status
     (getTaskById
        (tasks (snd (verifyTask 7 ''t1'' ''the parser handles every input now'' 90
                       (exWorld COMPLETED IN_PROGRESS)))) ''t1'') = Some COMPLETED \<and>
   map_option summary
     (getTaskById
        (tasks (snd (verifyTask 7 ''t1'' ''the parser handles every input now'' 90
                       (exWorld COMPLETED IN_PROGRESS)))) ''t1'')
     = Some (Some ''the parser handles every input now'') \<and>
   snd (verifyTask 7 ''t1'' ''the parser still fails on input 3'' 79 (exWorld COMPLETED IN_PROGRESS))
     = exWorld COMPLETED IN_PROGRESS"
proof -
  have s: "status (exTask ''t1'' IN_PROGRESS [''t0'']) = IN_PROGRESS"
    by (simp add: exTask_def)
  have v1: "verifyTaskSchema ''the parser handles every input now'' 90"
    by (simp add: verifyTaskSchema_def)
  have v2: "verifyTaskSchema ''the parser still fails on input 3'' 79"
    by (simp add: verifyTaskSchema_def)
  show ?thesis
    using verifyTask_in_progress [OF exWorld_t1 [of COMPLETED] s v1, of 7]
      verifyTask_in_progress [OF exWorld_t1 [of COMPLETED] s v2, of 7] v1
    by simp
qed

text \<open>
  C6. For a task whose status is not \<^verbatim>\<open>in_progress\<close> (pending, completed, or blocked),
  \<^verbatim>\<open>verifyTask\<close> answers the status error, flagged as an error, and changes nothing:
  the world after the call is the world before it, whatever the score and the summary.
\<close>

theorem verifyTask_not_in_progress:
  assumes "getTaskById (tasks w) tid = Some task" and "status task \<noteq> IN_PROGRESS"
  shows "verifyTask now tid summ score w =
           (\<lparr>content = VerifyStatusError task, isError = True\<rparr>, w)"
  using assms by (simp add: verifyTask_def)

theorem verifyTask_not_in_progress_witness:
  "verifyTask 7 ''t1'' ''the parser handles every input now'' 90 (exWorld COMPLETED PENDING) =
     (\<lparr>content = VerifyStatusError (exTask ''t1'' PENDING [''t0'']), isError = True\<rparr>,
      exWorld COMPLETED PENDING) \<and>
   verifyTask 7 ''t1'' ''the parser handles every input now'' 90 (exWorld COMPLETED COMPLETED) =
     (\<lparr>content = VerifyStatusError (exTask ''t1'' COMPLETED [''t0'']), isError = True\<rparr>,
      exWorld COMPLETED COMPLETED)"
proof -
  have p: "status (exTask ''t1'' PENDING [''t0'']) \<noteq> IN_PROGRESS"
    and c: "status (exTask ''t1'' COMPLETED [''t0'']) \<noteq> IN_PROGRESS"
    by (simp_all add: exTask_def)
  show ?thesis
    using verifyTask_not_in_progress [OF exWorld_t1 p] verifyTask_not_in_progress [OF exWorld_t1 c]
    by simp
qed

section \<open>executeTask: the transition to in progress\<close>

text \<open>
  C3. For a pending task, \<^verbatim>\<open>canExecuteTask\<close> lets the task through exactly when every
  dependency is completed; then \<^verbatim>\<open>executeTask\<close> stores the status \<^verbatim>\<open>in_progress\<close> (and
  the date of the call as \<^verbatim>\<open>updatedAt\<close>). When it does not let the task through,
  \<^verbatim>\<open>executeTask\<close> answers that the task cannot be executed, names the blocking
  dependency ids (all the dependencies that are not completed, in the order of the
  dependency list, and at least one), and changes nothing.
\<close>

theorem executeTask_pending:
  assumes "getTaskById (tasks w) tid = Some task" and "status task = PENDING"
  shows "(canExecute (canExecuteTask (tasks w) tid) \<longleftrightarrow>
            (\<forall>dep \<in> set (dependencies task). isCompleted (tasks w) (taskId dep))) \<and>
         (canExecute (canExecuteTask (tasks w) tid) \<longrightarrow>
            getTaskById (tasks (snd (executeTask now tid w))) tid =
              Some (task\<lparr>status := IN_PROGRESS, updatedAt := now\<rparr>)) \<and>
         (\<not> canExecute (canExecuteTask (tasks w) tid) \<longrightarrow>
            blockedBy (canExecuteTask (tasks w) tid) =
              filter (\<lambda>d. \<not> isCompleted (tasks w) d) (map taskId (dependencies task)) \<and>
            blockedBy (canExecuteTask (tasks w) tid) \<noteq> [] \<and>
            executeTask now tid w =
              (\<lparr>content = ExecCannotExecute task (BlockedBy (blockedBy (canExecuteTask (tasks w) tid))),
                isError = False\<rparr>, w))"
proof (intro conjI impI)
  from assms(2) have st: "status task \<noteq> IN_PROGRESS" "status task \<noteq> COMPLETED"
    by simp_all
  show "canExecute (canExecuteTask (tasks w) tid) \<longleftrightarrow>
          (\<forall>dep \<in> set (dependencies task). isCompleted (tasks w) (taskId dep))"
    using assms(1) st by (rule canExecuteTask_found(1))
next
  assume "canExecute (canExecuteTask (tasks w) tid)"
  with assms show "getTaskById (tasks (snd (executeTask now tid w))) tid =
      Some (task\<lparr>status := IN_PROGRESS, updatedAt := now\<rparr>)"
    by (simp add: executeTask_def Let_def updateTaskStatus_def getTaskById_updateTask_same)
next
  assume blocked: "\<not> canExecute (canExecuteTask (tasks w) tid)"
  show b: "blockedBy (canExecuteTask (tasks w) tid) =
      filter (\<lambda>d. \<not> isCompleted (tasks w) d) (map taskId (dependencies task))"
    using assms(1) by (rule canExecuteTask_found(2)) (simp_all add: assms(2))
  show ne: "blockedBy (canExecuteTask (tasks w) tid) \<noteq> []"
    using blocked assms by (simp add: canExecuteTask_def dependencyCheck_def Let_def)
  show "executeTask now tid w =
      (\<lparr>content = ExecCannotExecute task (BlockedBy (blockedBy (canExecuteTask (tasks w) tid))),
        isError = False\<rparr>, w)"
    using blocked ne assms(1) by (simp add: executeTask_def Let_def)
qed

theorem executeTask_pending_witness:
  "map_option status (getTaskById (tasks (snd (executeTask 7 ''t1'' (exWorld COMPLETED PENDING)))) ''t1'')
     = Some IN_PROGRESS \<and>
   executeTask 7 ''t1'' (exWorld IN_PROGRESS PENDING) =
     (\<lparr>content = ExecCannotExecute (exTask ''t1'' PENDING [''t0'']) (BlockedBy [''t0'']),
       isError = False\<rparr>, exWorld IN_PROGRESS PENDING)"
proof -
  have p: "status (exTask ''t1'' PENDING [''t0'']) = PENDING"
    by (simp add: exTask_def)
  show ?thesis
    using executeTask_pending [OF exWorld_t1 [of COMPLETED] p, of 7]
      executeTask_pending [OF exWorld_t1 [of IN_PROGRESS] p, of 7]
    by (simp add: exWorld_canExecute)
qed

text \<open>
  C4. What \<^verbatim>\<open>executeTask\<close> does for a completed task, whatever function answers as
  \<^verbatim>\<open>canExecuteTask\<close>: the world is left as it was, so the status stays \<^verbatim>\<open>completed\<close>; but
  the tool asks that function before it looks at the status (lines 41 to 56 come
  before lines 70 to 80), so the already-completed message (delete the task and
  recreate it) is the answer only for a task that is let through. A completed task
  that is refused is answered with the cannot-be-executed message, and the branch
  for completed tasks is not reached.
\<close>

theorem executeTaskWith_completed:
  assumes "getTaskById (tasks w) tid = Some task" and "status task = COMPLETED"
  shows "executeTaskWith gate now tid w =
           (\<lparr>content =
               (if canExecute (gate (tasks w) tid) then ExecAlreadyCompleted task
                else ExecCannotExecute task
                       (if blockedBy (gate (tasks w) tid) \<noteq> []
                        then BlockedBy (blockedBy (gate (tasks w) tid))
                        else UnableToDetermine)),
              isError = False\<rparr>, w)"
  using assms by (simp add: executeTaskWith_def Let_def)

text \<open>
  The failing input of C4: the completed task \<open>t1\<close>, all of whose dependencies are
  completed, with a function that refuses completed tasks. The answer is "cannot be
  executed, unable to determine blocking reason", not the already-completed message.
\<close>

theorem executeTaskWith_completed_witness:
  "executeTaskWith exGate 7 ''t1'' (exWorld COMPLETED COMPLETED) =
     (\<lparr>content = ExecCannotExecute (exTask ''t1'' COMPLETED [''t0'']) UnableToDetermine,
       isError = False\<rparr>, exWorld COMPLETED COMPLETED)"
proof -
  have c: "status (exTask ''t1'' COMPLETED [''t0'']) = COMPLETED"
    by (simp add: exTask_def)
  show ?thesis
    using executeTaskWith_completed [OF exWorld_t1 [of COMPLETED] c, of exGate 7]
    by (simp add: exWorld_exGate)
qed

text \<open>
  C5. What \<^verbatim>\<open>executeTask\<close> does for a task in progress, whatever function answers as
  \<^verbatim>\<open>canExecuteTask\<close>: the world is left as it was and no error flag is set; but the tool
  asks that function before it looks at the status (lines 41 to 56 come before lines
  58 to 68), so the already-in-progress message is the answer only for a task that
  is let through. A task in progress that is refused is answered with the
  cannot-be-executed message, and the branch for tasks in progress is not reached.
\<close>

theorem executeTaskWith_in_progress:
  assumes "getTaskById (tasks w) tid = Some task" and "status task = IN_PROGRESS"
  shows "executeTaskWith gate now tid w =
           (\<lparr>content =
               (if canExecute (gate (tasks w) tid) then ExecAlreadyInProgress task
                else ExecCannotExecute task
                       (if blockedBy (gate (tasks w) tid) \<noteq> []
                        then BlockedBy (blockedBy (gate (tasks w) tid))
                        else UnableToDetermine)),
              isError = False\<rparr>, w)"
  using assms by (simp add: executeTaskWith_def Let_def)

text \<open>
  The failing input of C5: the task \<open>t1\<close> in progress whose dependency \<open>t0\<close> is
  pending (as after its dependency list was replaced), with a function that runs
  the dependency algorithm on a task in progress. The answer is "cannot be executed,
  blocked by \<open>t0\<close>", not the already-in-progress message.
\<close>

theorem executeTaskWith_in_progress_witness:
  "executeTaskWith exGate 7 ''t1'' (exWorld PENDING IN_PROGRESS) =
     (\<lparr>content = ExecCannotExecute (exTask ''t1'' IN_PROGRESS [''t0'']) (BlockedBy [''t0'']),
       isError = False\<rparr>, exWorld PENDING IN_PROGRESS)"
proof -
  have c: "status (exTask ''t1'' IN_PROGRESS [''t0'']) = IN_PROGRESS"
    by (simp add: exTask_def)
  show ?thesis
    using executeTaskWith_in_progress [OF exWorld_t1 [of PENDING] c, of exGate 7]
    by (simp add: exWorld_exGate)
qed

section \<open>updateTaskContent: line ranges and the empty update\<close>

lemma truthyNumber_positive:
  "positiveIfPresent n \<Longrightarrow> truthyNumber n \<longleftrightarrow> n \<noteq> None"
  by (cases n) (simp_all add: positiveIfPresent_def truthyNumber_def)

lemma invalidLineRange_schema:
  assumes "positiveIfPresent (lineStart file)" and "positiveIfPresent (lineEnd file)"
  shows "invalidLineRange file \<longleftrightarrow>
           (lineStart file = None) \<noteq> (lineEnd file = None) \<or>
           (\<exists>a b. lineStart file = Some a \<and> lineEnd file = Some b \<and> b < a)"
  using assms
  by (cases "lineStart file"; cases "lineEnd file")
     (simp_all add: invalidLineRange_def truthyNumber_positive numberGreater_def)

text \<open>
  C8. For a request that \<^verbatim>\<open>updateTaskContentSchema\<close> admits (a supplied line number is a
  positive integer), \<^verbatim>\<open>updateTaskContent\<close> answers the validation error exactly when some
  supplied related file has exactly one of \<^verbatim>\<open>lineStart\<close> and \<^verbatim>\<open>lineEnd\<close>, or has both
  with \<^verbatim>\<open>lineStart > lineEnd\<close>; so a file with \<^verbatim>\<open>lineStart = lineEnd\<close> is accepted. The
  validation error leaves the world as it was.
\<close>

theorem updateTaskContent_line_range:
  assumes "updateTaskContentSchema a"
  shows "(content (fst (updateTaskContent now tid a w)) = UpdateValidationError tid \<longleftrightarrow>
            (\<exists>files file. upd_relatedFiles a = Some files \<and> file \<in> set files \<and>
               ((lineStart file = None) \<noteq> (lineEnd file = None) \<or>
                (\<exists>s e. lineStart file = Some s \<and> lineEnd file = Some e \<and> e < s)))) \<and>
         (content (fst (updateTaskContent now tid a w)) = UpdateValidationError tid \<longrightarrow>
            snd (updateTaskContent now tid a w) = w)"
proof -
  let ?bad = "\<lambda>file. (lineStart file = None) \<noteq> (lineEnd file = None) \<or>
                (\<exists>s e. lineStart file = Some s \<and> lineEnd file = Some e \<and> e < s)"
  have inv: "list_ex invalidLineRange files \<longleftrightarrow> (\<exists>file \<in> set files. ?bad file)"
    if "upd_relatedFiles a = Some files" for files
  proof -
    from assms that have "\<forall>file \<in> set files. positiveIfPresent (lineStart file) \<and>
        positiveIfPresent (lineEnd file)"
      by (simp add: updateTaskContentSchema_def list_all_iff)
    then show ?thesis
      by (auto simp: list_ex_iff invalidLineRange_schema)
  qed
  show ?thesis
  proof (cases "upd_relatedFiles a")
    case None
    then show ?thesis
      by (simp add: updateTaskContent_def Let_def split: option.split)
  next
    case (Some files)
    show ?thesis
    proof (cases "list_ex invalidLineRange files")
      case True
      with Some inv [OF Some] show ?thesis
        by (auto simp: updateTaskContent_def)
    next
      case False
      with Some inv [OF Some] show ?thesis
        by (auto simp: updateTaskContent_def Let_def truthyArray_def split: option.split)
    qed
  qed
qed

theorem updateTaskContent_line_range_witness:
  "updateTaskContentSchema (exArgs (Some [exFile (Some 7) (Some 3)])) \<and>
   content (fst (updateTaskContent 9 ''t1'' (exArgs (Some [exFile (Some 7) (Some 3)]))
                   (exWorld COMPLETED PENDING))) = UpdateValidationError ''t1'' \<and>
   snd (updateTaskContent 9 ''t1'' (exArgs (Some [exFile (Some 7) (Some 3)]))
          (exWorld COMPLETED PENDING)) = exWorld COMPLETED PENDING \<and>
   content (fst (updateTaskContent 9 ''t1'' (exArgs (Some [exFile (Some 7) None]))
                   (exWorld COMPLETED PENDING))) = UpdateValidationError ''t1'' \<and>
   content (fst (updateTaskContent 9 ''t1'' (exArgs (Some [exFile None (Some 3)]))
                   (exWorld COMPLETED PENDING))) = UpdateValidationError ''t1'' \<and>
   content (fst (updateTaskContent 9 ''t1'' (exArgs (Some [exFile (Some 5) (Some 5)]))
                   (exWorld COMPLETED PENDING))) \<noteq> UpdateValidationError ''t1''"
proof -
  have s: "updateTaskContentSchema (exArgs (Some [exFile x y]))"
    if "positiveIfPresent x" "positiveIfPresent y" for x y
    using that by (simp add: updateTaskContentSchema_def exArgs_def exFile_def)
  have p: "positiveIfPresent (Some 7)" "positiveIfPresent (Some 3)" "positiveIfPresent (Some 5)"
    "positiveIfPresent None"
    by (simp_all add: positiveIfPresent_def)
  have a: "upd_relatedFiles (exArgs files) = files" for files
    by (simp add: exArgs_def)
  have f: "lineStart (exFile x y) = x" "lineEnd (exFile x y) = y" for x y
    by (simp_all add: exFile_def)
  show ?thesis
    using updateTaskContent_line_range [OF s [OF p(1) p(2)], of 9 "''t1''" "exWorld COMPLETED PENDING"]
      updateTaskContent_line_range [OF s [OF p(1) p(4)], of 9 "''t1''" "exWorld COMPLETED PENDING"]
      updateTaskContent_line_range [OF s [OF p(4) p(2)], of 9 "''t1''" "exWorld COMPLETED PENDING"]
      updateTaskContent_line_range [OF s [OF p(3) p(3)], of 9 "''t1''" "exWorld COMPLETED PENDING"]
      s [OF p(1) p(2)]
    by (simp add: a f)
qed

text \<open>
  C10. A request that supplies none of the updatable fields is answered with the
  empty-update response, whatever the task set holds and whether or not the id is
  the id of a task: nothing is looked up, and the world is left as it was.
\<close>

theorem updateTaskContent_empty_update:
  assumes "upd_name a = None" and "upd_description a = None" and "upd_notes a = None"
    and "upd_dependencies a = None" and "upd_relatedFiles a = None"
    and "upd_implementationGuide a = None" and "upd_verificationCriteria a = None"
  shows "updateTaskContent now tid a w = (\<lparr>content = UpdateEmpty tid, isError = False\<rparr>, w)"
  using assms by (simp add: updateTaskContent_def truthyString_def truthyArray_def)

theorem updateTaskContent_empty_update_witness:
  "updateTaskContent 9 ''t1'' (exArgs None) (exWorld COMPLETED PENDING) =
     (\<lparr>content = UpdateEmpty ''t1'', isError = False\<rparr>, exWorld COMPLETED PENDING) \<and>
   updateTaskContent 9 ''no such task'' (exArgs None) (exWorld COMPLETED PENDING) =
     (\<lparr>content = UpdateEmpty ''no such task'', isError = False\<rparr>, exWorld COMPLETED PENDING)"
  using updateTaskContent_empty_update [of "exArgs None" 9 "''t1''" "exWorld COMPLETED PENDING"]
    updateTaskContent_empty_update [of "exArgs None" 9 "''no such task''" "exWorld COMPLETED PENDING"]
  by (simp add: exArgs_def)

section \<open>splitTasksRaw: validation before any change\<close>

lemma hasDuplicateName_iff:
  "hasDuplicateName nameSet ts \<longleftrightarrow>
     \<not> distinct (map in_name ts) \<or> (\<exists>t \<in> set ts. in_name t \<in> set nameSet)"
  by (induction ts arbitrary: nameSet) (auto simp: image_iff, metis+)

lemma those_map_None:
  "those (map f xs) = None \<longleftrightarrow> (\<exists>x \<in> set xs. f x = None)"
  by (induction xs) (auto split: option.splits)

lemma those_map_Some:
  "those (map f xs) = Some ys \<Longrightarrow> map (\<lambda>x. f x) xs = map Some ys"
  by (induction xs arbitrary: ys) (auto split: option.splits)

lemma zStringMax_Some: "zStringMax n v = Some s \<longleftrightarrow> v = Some (JString s) \<and> length s \<le> n"
  by (auto simp: zStringMax_def zString_def split: option.splits json.splits)

lemma zStringMin_Some: "zStringMin n v = Some s \<longleftrightarrow> v = Some (JString s) \<and> n \<le> length s"
  by (auto simp: zStringMin_def zString_def split: option.splits json.splits)

lemma taskSchema_Some:
  assumes "taskSchema (Some j) = Some i"
  shows "\<exists>props. j = JObject props \<and> map_of props ''name'' = Some (JString (in_name i)) \<and>
           length (in_name i) \<le> 100 \<and>
           map_of props ''description'' = Some (JString (in_description i)) \<and>
           10 \<le> length (in_description i)"
proof (cases j)
  case (JObject props)
  with assms show ?thesis
    by (auto simp: taskSchema_def zStringMax_Some zStringMin_Some bind_eq_Some_conv)
qed (use assms in \<open>simp_all add: taskSchema_def\<close>)

lemma taskSchema_name: "taskSchema (Some j) = Some i \<Longrightarrow> nameOf j = Some (in_name i)"
  by (auto dest!: taskSchema_Some simp: nameOf_def zString_def)

lemma tasksSchema_Some:
  assumes "tasksSchema j = Some inputs"
  shows "\<exists>js. j = JArray js \<and> map (\<lambda>x. taskSchema (Some x)) js = map Some inputs"
proof (cases j)
  case (JArray js)
  with assms show ?thesis
    by (auto simp: tasksSchema_def zArray_def dest: those_map_Some split: option.splits if_splits)
qed (use assms in \<open>simp_all add: tasksSchema_def zArray_def\<close>)

lemma map_filter_names:
  "map (\<lambda>x. taskSchema (Some x)) js = map Some inputs \<Longrightarrow>
   List.map_filter nameOf js = map in_name inputs"
proof (induction js arbitrary: inputs)
  case Nil
  then show ?case by simp
next
  case (Cons x js)
  then obtain i rest where inputs: "inputs = i # rest"
    and x: "taskSchema (Some x) = Some i"
    and r: "map (\<lambda>x. taskSchema (Some x)) js = map Some rest"
    by (cases inputs) auto
  from Cons.IH [OF r] taskSchema_name [OF x] inputs show ?case
    by simp
qed

lemma tasksSchema_names: "tasksSchema j = Some inputs \<Longrightarrow> map in_name inputs = taskNames j"
  by (auto dest!: tasksSchema_Some simp: taskNames_def map_filter_names)

lemma zArray_strings: "zArray zString (Some (JArray (map JString deps))) = Some deps"
  by (induction deps) (simp_all add: zArray_def zString_def)

lemma taskSchema_exJsonTask:
  "taskSchema (Some (exJsonTask n d deps)) =
     (if length n \<le> 100 \<and> 10 \<le> length d then Some (exInput n d deps) else None)"
  by (simp add: taskSchema_def exJsonTask_def exInput_def zStringMax_def zStringMin_def
      zString_def zOptional_def zArray_strings)

lemma tasksSchema_ex1:
  "tasksSchema (JArray [exJsonTask n d deps]) =
     (if length n \<le> 100 \<and> 10 \<le> length d then Some [exInput n d deps] else None)"
  by (simp add: tasksSchema_def zArray_def taskSchema_exJsonTask)

lemma tasksSchema_ex2:
  "tasksSchema (JArray [exJsonTask n d deps, exJsonTask n' d' deps']) =
     (if length n \<le> 100 \<and> 10 \<le> length d \<and> length n' \<le> 100 \<and> 10 \<le> length d'
      then Some [exInput n d deps, exInput n' d' deps'] else None)"
  by (simp add: tasksSchema_def zArray_def taskSchema_exJsonTask)

lemma taskNames_ex2:
  "taskNames (JArray [exJsonTask n d deps, exJsonTask n' d' deps']) = [n, n']"
  by (simp add: taskNames_def nameOf_def exJsonTask_def zString_def)

text \<open>
  C2. A batch in which two tasks have the same name is refused in every update mode:
  the answer is the duplicate-name message (or the schema message, when the batch
  is also malformed), it carries no task creation result, and the world (the task
  set and the backups) is left exactly as it was.
\<close>

theorem splitTasksRaw_duplicate_names:
  assumes "\<not> distinct (taskNames j)"
  shows "snd (splitTasksRaw e updateMode (Some j) g w) = w \<and>
         ephemeral (fst (splitTasksRaw e updateMode (Some j) g w)) = None \<and>
         (split_content (fst (splitTasksRaw e updateMode (Some j) g w)) = SplitDuplicateNames \<or>
          split_content (fst (splitTasksRaw e updateMode (Some j) g w)) = SplitSchemaError)"
proof (cases "tasksSchema j")
  case None
  then show ?thesis by (simp add: splitTasksRaw_def)
next
  case (Some inputs)
  with assms have "hasDuplicateName [] inputs"
    by (simp add: hasDuplicateName_iff tasksSchema_names)
  with Some show ?thesis by (simp add: splitTasksRaw_def)
qed

theorem splitTasksRaw_duplicate_names_witness:
  "splitTasksRaw exEnv Append
     (Some (JArray [exJsonTask ''A'' ''the first task named A'' [],
                    exJsonTask ''A'' ''the second task named A'' []])) None
     (exWorld COMPLETED PENDING)
     = (\<lparr>split_content = SplitDuplicateNames, ephemeral = None\<rparr>, exWorld COMPLETED PENDING) \<and>
   splitTasksRaw exEnv Overwrite
     (Some (JArray [exJsonTask ''A'' ''the first task named A'' [],
                    exJsonTask ''A'' ''the second task named A'' []])) None
     (exWorld COMPLETED PENDING)
     = (\<lparr>split_content = SplitDuplicateNames, ephemeral = None\<rparr>, exWorld COMPLETED PENDING) \<and>
   splitTasksRaw exEnv Selective
     (Some (JArray [exJsonTask ''A'' ''the first task named A'' [],
                    exJsonTask ''A'' ''the second task named A'' []])) None
     (exWorld COMPLETED PENDING)
     = (\<lparr>split_content = SplitDuplicateNames, ephemeral = None\<rparr>, exWorld COMPLETED PENDING) \<and>
   splitTasksRaw exEnv ClearAllTasks
     (Some (JArray [exJsonTask ''A'' ''the first task named A'' [],
                    exJsonTask ''A'' ''the second task named A'' []])) None
     (exWorld COMPLETED PENDING)
     = (\<lparr>split_content = SplitDuplicateNames, ephemeral = None\<rparr>, exWorld COMPLETED PENDING)"
proof -
  let ?j = "JArray [exJsonTask ''A'' ''the first task named A'' [],
                    exJsonTask ''A'' ''the second task named A'' []]"
  have d: "\<not> distinct (taskNames ?j)"
    by (simp add: taskNames_ex2)
  have s: "tasksSchema ?j \<noteq> None"
    by (simp add: tasksSchema_ex2)
  have c: "split_content (fst (splitTasksRaw e m (Some ?j) g w)) \<noteq> SplitSchemaError" for e m g w
    by (simp add: splitTasksRaw_def tasksSchema_ex2 exInput_def)
  have eq: "snd p = w \<Longrightarrow> ephemeral (fst p) = None \<Longrightarrow> split_content (fst p) = SplitDuplicateNames
      \<Longrightarrow> p = (\<lparr>split_content = SplitDuplicateNames, ephemeral = None\<rparr>, w)"
    for p :: "split_response \<times> world" and w
    by (cases p) auto
  show ?thesis
    using splitTasksRaw_duplicate_names [OF d, of exEnv Append None "exWorld COMPLETED PENDING"]
      splitTasksRaw_duplicate_names [OF d, of exEnv Overwrite None "exWorld COMPLETED PENDING"]
      splitTasksRaw_duplicate_names [OF d, of exEnv Selective None "exWorld COMPLETED PENDING"]
      splitTasksRaw_duplicate_names [OF d, of exEnv ClearAllTasks None "exWorld COMPLETED PENDING"]
    by (simp add: c eq)
qed

lemma taskSchema_rejects:
  assumes "(\<exists>n. map_of props ''name'' = Some (JString n) \<and> 100 < length n) \<or>
           (\<exists>d. map_of props ''description'' = Some (JString d) \<and> length d < 10)"
  shows "taskSchema (Some (JObject props)) = None"
proof (rule ccontr)
  assume "taskSchema (Some (JObject props)) \<noteq> None"
  then obtain i where "taskSchema (Some (JObject props)) = Some i" by auto
  from taskSchema_Some [OF this] assms show False by auto
qed

text \<open>
  C7, as the code has it. A batch with a task whose name is longer than 100
  characters, or whose description is shorter than 10 characters, is refused with the
  schema message in every update mode, and the world is left as it was. (The schema
  puts no lower bound on the length of a name.)
\<close>

theorem splitTasksRaw_schema_rejects:
  assumes "JObject props \<in> set js"
    and "(\<exists>n. map_of props ''name'' = Some (JString n) \<and> 100 < length n) \<or>
         (\<exists>d. map_of props ''description'' = Some (JString d) \<and> length d < 10)"
  shows "splitTasksRaw e updateMode (Some (JArray js)) g w =
           (\<lparr>split_content = SplitSchemaError, ephemeral = None\<rparr>, w)"
proof -
  from assms have "those (map (\<lambda>x. taskSchema (Some x)) js) = None"
    unfolding those_map_None using taskSchema_rejects by blast
  then show ?thesis
    by (simp add: splitTasksRaw_def tasksSchema_def zArray_def)
qed

theorem splitTasksRaw_schema_rejects_witness:
  "splitTasksRaw exEnv Append
     (Some (JArray [exJsonTask (replicate 101 CHR ''n'') ''a description that is long enough'' []]))
     None (exWorld COMPLETED PENDING)
     = (\<lparr>split_content = SplitSchemaError, ephemeral = None\<rparr>, exWorld COMPLETED PENDING) \<and>
   splitTasksRaw exEnv ClearAllTasks
     (Some (JArray [exJsonTask ''A'' ''too short'' []])) None (exWorld COMPLETED PENDING)
     = (\<lparr>split_content = SplitSchemaError, ephemeral = None\<rparr>, exWorld COMPLETED PENDING)"
proof -
  have n: "(\<exists>n. map_of [(''name'', JString (replicate 101 CHR ''n'')),
                (''description'', JString ''a description that is long enough''),
                (''implementationGuide'', JString ''step by step''),
                (''dependencies'', JArray (map JString []))] ''name'' = Some (JString n) \<and> 100 < length n) \<or>
           (\<exists>d. map_of [(''name'', JString (replicate 101 CHR ''n'')),
                (''description'', JString ''a description that is long enough''),
                (''implementationGuide'', JString ''step by step''),
                (''dependencies'', JArray (map JString []))] ''description'' = Some (JString d) \<and> length d < 10)"
    by simp
  have d: "(\<exists>n. map_of [(''name'', JString ''A''), (''description'', JString ''too short''),
                (''implementationGuide'', JString ''step by step''),
                (''dependencies'', JArray (map JString []))] ''name'' = Some (JString n) \<and> 100 < length n) \<or>
           (\<exists>d. map_of [(''name'', JString ''A''), (''description'', JString ''too short''),
                (''implementationGuide'', JString ''step by step''),
                (''dependencies'', JArray (map JString []))] ''description'' = Some (JString d) \<and> length d < 10)"
    by simp
  show ?thesis
    using splitTasksRaw_schema_rejects [OF _ n, of "[exJsonTask (replicate 101 CHR ''n'') ''a description that is long enough'' []]"
        exEnv Append None "exWorld COMPLETED PENDING"]
      splitTasksRaw_schema_rejects [OF _ d, of "[exJsonTask ''A'' ''too short'' []]"
        exEnv ClearAllTasks None "exWorld COMPLETED PENDING"]
    by (simp add: exJsonTask_def)
qed

text \<open>
  The claim C7 as stated fails for the empty name: a batch whose only task has the
  empty name passes the schema and the duplicate check; the answer is not a
  validation message, and the task set then holds a task with the empty name.
\<close>

theorem splitTasksRaw_empty_name_counterexample:
  "split_content (fst (splitTasksRaw exEnv Append
      (Some (JArray [exJsonTask [] ''a task without a name'' []])) None
      \<lparr>tasks = [], backups = []\<rparr>)) \<noteq> SplitSchemaError \<and>
   map name (tasks (snd (splitTasksRaw exEnv Append
      (Some (JArray [exJsonTask [] ''a task without a name'' []])) None
      \<lparr>tasks = [], backups = []\<rparr>))) = [[]]"
  by (simp add: splitTasksRaw_def tasksSchema_ex1 applyUpdateMode_def
      batchCreateOrUpdateTasks_def survivors_def matchExisting_def buildTask_def exInput_def
      Let_def)

section \<open>splitTasksRaw: clearing and then creating\<close>

text \<open>
  C9. In the mode \<^verbatim>\<open>clearAllTasks\<close>, for a batch that passes the schema and the duplicate
  check, the answer carries a task creation result in which
  \<^item> \<^verbatim>\<open>backupFilePath\<close> is present exactly when the clear step succeeded, and
  \<^item> \<^verbatim>\<open>success\<close> holds exactly when the clear step and the creation step both succeeded.
  When the clear step succeeds and the creation step fails, the world is the one
  the clear step left: the task set is empty, the old tasks are in the backup whose
  location \<^verbatim>\<open>backupFilePath\<close> gives, and the message is the clear message followed by the
  creation error.
\<close>

theorem splitTasksRaw_clear_then_create:
  assumes "tasksSchema j = Some inputs" and "\<not> hasDuplicateName [] inputs"
    and "modelClearAllTasks e w = (cleared, w1)"
    and "splitTasksRaw e ClearAllTasks (Some j) g w = (r, w')"
  shows "\<exists>res. ephemeral r = Some res \<and>
           (backupFilePath res \<noteq> None \<longleftrightarrow> clr_success cleared) \<and>
           (success res \<longleftrightarrow>
              clr_success cleared \<and> \<not> isl (batchCreateOrUpdateTasks e inputs Append g w1)) \<and>
           (clr_success cleared \<and> isl (batchCreateOrUpdateTasks e inputs Append g w1) \<longrightarrow>
              w' = w1 \<and> tasks w' = [] \<and>
              (\<exists>location. backupFilePath res = Some location \<and>
                 backups w' = backups w @ [(location, tasks w)]) \<and>
              message res =
                [ClearMessage True,
                 ErrorCreatingNewTasks (projl (batchCreateOrUpdateTasks e inputs Append g w1))])"
proof (cases "writeBackup e")
  case None
  with assms show ?thesis
    by (auto simp: splitTasksRaw_def applyUpdateMode_def modelClearAllTasks_def Let_def)
next
  case (Some location)
  with assms(3) have c: "cleared = \<lparr>clr_success = True, clr_message = [ClearMessage True],
      clr_backupFile = Some location\<rparr>"
    and w1: "w1 = w\<lparr>tasks := [], backups := backups w @ [(location, tasks w)]\<rparr>"
    by (auto simp: modelClearAllTasks_def)
  show ?thesis
  proof (cases "batchCreateOrUpdateTasks e inputs Append g w1")
    case (Inl err)
    with assms c w1 show ?thesis
      by (auto simp: splitTasksRaw_def applyUpdateMode_def Let_def)
  next
    case (Inr created)
    with assms c w1 show ?thesis
      by (auto simp: splitTasksRaw_def applyUpdateMode_def Let_def)
  qed
qed

theorem splitTasksRaw_clear_then_create_witness:
  "splitTasksRaw exEnv ClearAllTasks
     (Some (JArray [exJsonTask ''B'' ''depends on a task that is not there'' [''missing'']])) None
     (exWorld COMPLETED PENDING)
     = (\<lparr>split_content = SplitPrompt ClearAllTasks [] [],
         ephemeral = Some \<lparr>success = False,
                           message = [ClearMessage True,
                                      ErrorCreatingNewTasks (DependencyNotFound ''missing'')],
                           backupFilePath = Some ''backup-7''\<rparr>\<rparr>,
        \<lparr>tasks = [], backups = [(''backup-7'', tasks (exWorld COMPLETED PENDING))]\<rparr>)"
proof -
  let ?j = "JArray [exJsonTask ''B'' ''depends on a task that is not there'' [''missing'']]"
  let ?i = "[exInput ''B'' ''depends on a task that is not there'' [''missing'']]"
  let ?w1 = "\<lparr>tasks = [], backups = [(''backup-7'', tasks (exWorld COMPLETED PENDING))]\<rparr>"
  have s: "tasksSchema ?j = Some ?i"
    by (simp add: tasksSchema_ex1)
  have d: "\<not> hasDuplicateName [] ?i"
    by simp
  have c: "modelClearAllTasks exEnv (exWorld COMPLETED PENDING) =
      (\<lparr>clr_success = True, clr_message = [ClearMessage True], clr_backupFile = Some ''backup-7''\<rparr>, ?w1)"
    by (simp add: modelClearAllTasks_def exEnv_def exWorld_def)
  have b: "batchCreateOrUpdateTasks exEnv ?i Append None ?w1 = Inl (DependencyNotFound ''missing'')"
    by (simp add: batchCreateOrUpdateTasks_def survivors_def matchExisting_def buildTask_def
        exInput_def resolveDependency_def exEnv_def Let_def)
  obtain r w' where r: "splitTasksRaw exEnv ClearAllTasks (Some ?j) None (exWorld COMPLETED PENDING) = (r, w')"
    by (cases "splitTasksRaw exEnv ClearAllTasks (Some ?j) None (exWorld COMPLETED PENDING)")
  have p: "split_content r = SplitPrompt ClearAllTasks [] []"
    using r by (auto simp: splitTasksRaw_def s applyUpdateMode_def c b Let_def)
  from splitTasksRaw_clear_then_create [OF s d c r]
  obtain res where e: "ephemeral r = Some res" and f: "\<not> success res" and w': "w' = ?w1"
    and l: "backupFilePath res = Some ''backup-7''"
    and m: "message res = [ClearMessage True, ErrorCreatingNewTasks (DependencyNotFound ''missing'')]"
    unfolding b by (auto simp: exWorld_def)
  show ?thesis
    unfolding r using p e f w' l m
    by (simp add: split_response.equality taskCreationResult.equality)
qed

end
